theory Spec2Isabelle
  imports Main
begin

section \<open>Errors\<close>

text \<open>
  Every exception the services throw or let through is a value. The three Nest
  exceptions carry the message the source passes to their constructor;
  \<open>UnauthorizedException_of\<close> is \<^verbatim>\<open>new UnauthorizedException(error)\<close>, the form
  \<^verbatim>\<open>LocalStrategy.validate\<close> uses to wrap whatever it caught. The remaining
  constructors are the rejections of the libraries underneath: the MongoDB driver
  (connection lost, duplicate \<^verbatim>\<open>_id\<close>, write to \<^verbatim>\<open>_id\<close>), Mongoose's cast of a filter
  against the schema, a property read on \<^verbatim>\<open>undefined\<close>, and the
  \<^verbatim>\<open>ForbiddenException\<close> Nest raises when a guard returns \<^verbatim>\<open>false\<close>.
\<close>

datatype error =
    NotFoundException string
  | UnprocessableEntityException string
  | UnauthorizedException string
  | UnauthorizedException_of error
  | MongoNetworkError
  | MongoDuplicateKeyError
  | MongoImmutableFieldError
  | CastError
  | TypeError
  | ForbiddenException

fun is_Unauthorized :: "error \<Rightarrow> bool" where
  "is_Unauthorized (UnauthorizedException msg) = True"
| "is_Unauthorized (UnauthorizedException_of e) = True"
| "is_Unauthorized e = False"

fun is_NotFound :: "error \<Rightarrow> bool" where
  "is_NotFound (NotFoundException msg) = True"
| "is_NotFound e = False"


section \<open>Documents and the Mongoose model underneath the repository\<close>

text \<open>
  \<^verbatim>\<open>AbstractDocument\<close> has the single property \<^verbatim>\<open>_id: ObjectId\<close> (here \<open>doc_id\<close>, since
  an Isabelle name cannot begin with an underscore); a concrete document class
  extends it, which is record extension. An \<^verbatim>\<open>ObjectId\<close> is opaque: only equality and
  the hexadecimal rendering are used by the services.
\<close>

datatype ObjectId = ObjectId nat

record AbstractDocument =
  doc_id :: ObjectId

text \<open>
  The repository holds a Mongoose \<^verbatim>\<open>Model<TDocument>\<close>, a library object. Its state is
  the collection it is bound to: the stored documents in natural order, the fate of the
  coming round trips to the server (\<open>False\<close>: the round trip is lost and the query
  promise rejects; an exhausted schedule means the server answers), and the generator
  behind \<^verbatim>\<open>new Types.ObjectId()\<close>.
\<close>

record 'd Model =
  docs :: "'d list"
  link :: "bool list"
  oid_counter :: nat

definition up :: "'d Model \<Rightarrow> bool" where
  "up m = (case link m of [] \<Rightarrow> True | b # bs \<Rightarrow> b)"

definition round_trip :: "'d Model \<Rightarrow> 'd Model" where
  "round_trip m = m\<lparr>link := tl (link m)\<rparr>"

text \<open>
  Before a query is sent, Mongoose casts its filter, and for an update its update, against
  the schema of the model; when a value cannot be cast the query promise rejects with a
  \<^verbatim>\<open>CastError\<close> and nothing is sent. A \<^verbatim>\<open>FilterQuery\<close> is therefore either the
  condition on documents that the cast yields, or a filter that cannot be cast, and an
  \<^verbatim>\<open>UpdateQuery\<close> either the change it makes to the matched document or an update that
  cannot be cast.
\<close>

datatype 'd FilterQuery = Where "'d \<Rightarrow> bool" | Uncastable

datatype 'd UpdateQuery = Set "'d \<Rightarrow> 'd" | UncastableUpdate

fun update_first :: "('d \<Rightarrow> bool) \<Rightarrow> ('d \<Rightarrow> 'd) \<Rightarrow> 'd list \<Rightarrow> 'd list" where
  "update_first f u [] = []"
| "update_first f u (d # ds) = (if f d then u d # ds else d # update_first f u ds)"

fun remove_first :: "('d \<Rightarrow> bool) \<Rightarrow> 'd list \<Rightarrow> 'd list" where
  "remove_first f [] = []"
| "remove_first f (d # ds) = (if f d then ds else d # remove_first f ds)"

text \<open>
  \<^verbatim>\<open>document.save()\<close> of a new document: an insert, refused on a duplicate \<^verbatim>\<open>_id\<close>. The
  document is taken in the form the schema leaves it in; what the schema adds to or
  refuses in the caller's fields is not part of this model.
\<close>

definition model_save ::
  "'a AbstractDocument_scheme \<Rightarrow> 'a AbstractDocument_scheme Model
     \<Rightarrow> (error + 'a AbstractDocument_scheme) \<times> 'a AbstractDocument_scheme Model" where
  "model_save d m =
     (let m' = round_trip m in
      if \<not> up m then (Inl MongoNetworkError, m')
      else if list_ex (\<lambda>x. doc_id x = doc_id d) (docs m') then (Inl MongoDuplicateKeyError, m')
      else (Inr d, m'\<lparr>docs := docs m' @ [d]\<rparr>))"

text \<open>\<^verbatim>\<open>model.findOne(filter).lean(true)\<close>: the first match, or \<^verbatim>\<open>null\<close>.\<close>

definition model_findOne ::
  "'d FilterQuery \<Rightarrow> 'd Model \<Rightarrow> (error + 'd option) \<times> 'd Model" where
  "model_findOne f m =
     (case f of
        Uncastable \<Rightarrow> (Inl CastError, m)
      | Where p \<Rightarrow>
          (let m' = round_trip m in
           if \<not> up m then (Inl MongoNetworkError, m')
           else (Inr (List.find p (docs m')), m')))"

text \<open>
  \<^verbatim>\<open>model.findOneAndUpdate(filter, update, { new: true }).lean(true)\<close>: the first match
  is replaced by its updated form, which is returned; the server refuses an update that
  changes \<^verbatim>\<open>_id\<close>.
\<close>

definition model_findOneAndUpdate ::
  "'a AbstractDocument_scheme FilterQuery \<Rightarrow> 'a AbstractDocument_scheme UpdateQuery
     \<Rightarrow> 'a AbstractDocument_scheme Model
     \<Rightarrow> (error + 'a AbstractDocument_scheme option) \<times> 'a AbstractDocument_scheme Model" where
  "model_findOneAndUpdate f u m =
     (case f of
        Uncastable \<Rightarrow> (Inl CastError, m)
      | Where p \<Rightarrow>
          (case u of
             UncastableUpdate \<Rightarrow> (Inl CastError, m)
           | Set g \<Rightarrow>
               (let m' = round_trip m in
                if \<not> up m then (Inl MongoNetworkError, m')
                else (case List.find p (docs m') of
                        None \<Rightarrow> (Inr None, m')
                      | Some d \<Rightarrow>
                          if doc_id (g d) \<noteq> doc_id d then (Inl MongoImmutableFieldError, m')
                          else (Inr (Some (g d)), m'\<lparr>docs := update_first p g (docs m')\<rparr>)))))"

text \<open>\<^verbatim>\<open>model.find(filter).lean(true)\<close>: every match.\<close>

definition model_find ::
  "'d FilterQuery \<Rightarrow> 'd Model \<Rightarrow> (error + 'd list) \<times> 'd Model" where
  "model_find f m =
     (case f of
        Uncastable \<Rightarrow> (Inl CastError, m)
      | Where p \<Rightarrow>
          (let m' = round_trip m in
           if \<not> up m then (Inl MongoNetworkError, m')
           else (Inr (filter p (docs m')), m')))"

text \<open>\<^verbatim>\<open>model.findOneAndDelete(filter).lean(true)\<close>: the first match is removed and returned.\<close>

definition model_findOneAndDelete ::
  "'d FilterQuery \<Rightarrow> 'd Model \<Rightarrow> (error + 'd option) \<times> 'd Model" where
  "model_findOneAndDelete f m =
     (case f of
        Uncastable \<Rightarrow> (Inl CastError, m)
      | Where p \<Rightarrow>
          (let m' = round_trip m in
           if \<not> up m then (Inl MongoNetworkError, m')
           else (Inr (List.find p (docs m')), m'\<lparr>docs := remove_first p (docs m')\<rparr>)))"


section \<open>AbstractRepository\<close>

text \<open>
  The five methods of \<^verbatim>\<open>AbstractRepository<TDocument>\<close>. Each awaits one call of the
  model, so a rejection of that call leaves the method as it is; the three \<^verbatim>\<open>findOne*\<close>
  methods then test \<^verbatim>\<open>!document\<close> and throw \<^verbatim>\<open>NotFoundException\<close>. The
  \<^verbatim>\<open>logger.warn\<close> line before the throw writes to the log only and is left out.
\<close>

definition not_found :: error where
  "not_found = NotFoundException ''The document was not found''"

definition create ::
  "'a \<Rightarrow> 'a AbstractDocument_scheme Model
     \<Rightarrow> (error + 'a AbstractDocument_scheme) \<times> 'a AbstractDocument_scheme Model" where
  "create document m =
     (let createdDocument = \<lparr>doc_id = ObjectId (oid_counter m), \<dots> = document\<rparr>
      in model_save createdDocument (m\<lparr>oid_counter := Suc (oid_counter m)\<rparr>))"

definition findOne :: "'d FilterQuery \<Rightarrow> 'd Model \<Rightarrow> (error + 'd) \<times> 'd Model" where
  "findOne filterQuery m =
     (case model_findOne filterQuery m of
        (Inl e, m') \<Rightarrow> (Inl e, m')
      | (Inr None, m') \<Rightarrow> (Inl not_found, m')
      | (Inr (Some document), m') \<Rightarrow> (Inr document, m'))"

definition findOneAndUpdate ::
  "'a AbstractDocument_scheme FilterQuery \<Rightarrow> 'a AbstractDocument_scheme UpdateQuery
     \<Rightarrow> 'a AbstractDocument_scheme Model
     \<Rightarrow> (error + 'a AbstractDocument_scheme) \<times> 'a AbstractDocument_scheme Model" where
  "findOneAndUpdate filterQuery update m =
     (case model_findOneAndUpdate filterQuery update m of
        (Inl e, m') \<Rightarrow> (Inl e, m')
      | (Inr None, m') \<Rightarrow> (Inl not_found, m')
      | (Inr (Some document), m') \<Rightarrow> (Inr document, m'))"

definition find :: "'d FilterQuery \<Rightarrow> 'd Model \<Rightarrow> (error + 'd list) \<times> 'd Model" where
  "find filterQuery m = model_find filterQuery m"

definition findOneAndDelete :: "'d FilterQuery \<Rightarrow> 'd Model \<Rightarrow> (error + 'd) \<times> 'd Model" where
  "findOneAndDelete filterQuery m =
     (case model_findOneAndDelete filterQuery m of
        (Inl e, m') \<Rightarrow> (Inl e, m')
      | (Inr None, m') \<Rightarrow> (Inl not_found, m')
      | (Inr (Some document), m') \<Rightarrow> (Inr document, m'))"

text \<open>A run of \<open>create\<close> calls, one after the other, whatever each returns.\<close>

fun creates ::
  "'a list \<Rightarrow> 'a AbstractDocument_scheme Model \<Rightarrow> 'a AbstractDocument_scheme Model" where
  "creates [] m = m"
| "creates (document # documents) m = creates documents (snd (create document m))"


section \<open>JavaScript values\<close>

text \<open>
  The values that travel in requests, cookies and RPC messages. Two kinds of string stay
  symbolic, since the services only produce and consume them through library calls:
  \<open>HexId oid\<close> is \<^verbatim>\<open>oid.toHexString()\<close>, the string of 24 hexadecimal digits that names
  \<open>oid\<close>, and \<open>Jwt userId exp key\<close> is the compact form of a token whose payload is
  \<^verbatim>\<open>{ userId }\<close>, which expires at \<open>exp\<close> and was signed with \<open>key\<close>. Both are non-empty
  strings, and \<open>Str s\<close> is a string of neither kind. \<open>truthy\<close> is the test that \<^verbatim>\<open>||\<close> and
  \<^verbatim>\<open>!\<close> apply.
\<close>

datatype jsval =
    Undefined
  | Null
  | Bool bool
  | Num int
  | Str string
  | HexId ObjectId
  | Jwt jsval nat string
  | Obj "(string \<times> jsval) list"

fun truthy :: "jsval \<Rightarrow> bool" where
  "truthy Undefined = False"
| "truthy Null = False"
| "truthy (Bool b) = b"
| "truthy (Num n) = (n \<noteq> 0)"
| "truthy (Str s) = (s \<noteq> [])"
| "truthy (HexId oid) = True"
| "truthy (Jwt userId e k) = True"
| "truthy (Obj ps) = True"

text \<open>\<^verbatim>\<open>a || b\<close>, and the property read \<^verbatim>\<open>o?.k\<close> on an object that may be \<^verbatim>\<open>undefined\<close>.\<close>

definition js_or :: "jsval \<Rightarrow> jsval \<Rightarrow> jsval" where
  "js_or a b = (if truthy a then a else b)"

definition get_prop :: "(string \<times> jsval) list \<Rightarrow> string \<Rightarrow> jsval" where
  "get_prop ps k = (case map_of ps k of None \<Rightarrow> Undefined | Some v \<Rightarrow> v)"

definition opt_prop :: "(string \<times> jsval) list option \<Rightarrow> string \<Rightarrow> jsval" where
  "opt_prop obj k = (case obj of None \<Rightarrow> Undefined | Some ps \<Rightarrow> get_prop ps k)"

text \<open>
  What \<^verbatim>\<open>context.switchToHttp().getRequest()\<close> returns: an Express request, or under the
  RPC transport the message data. \<open>cookies\<close> and \<open>headers\<close> are \<open>None\<close> where the object has
  no such property; \<open>user\<close> is the property the guards write.
\<close>

record 'u Request =
  cookies :: "(string \<times> jsval) list option"
  Authentication :: jsval
  headers :: "(string \<times> jsval) list option"
  user :: 'u


section \<open>UsersService (apps/auth)\<close>

record UserDocument = AbstractDocument +
  email :: string
  password :: string

record CreateUserDto =
  cu_email :: string
  cu_password :: string

text \<open>\<^verbatim>\<open>GetUserDto\<close> has the one property \<^verbatim>\<open>_id: string\<close>.\<close>

record GetUserDto =
  get_id :: jsval

text \<open>
  \<^verbatim>\<open>bcryptjs\<close> is a parameter of the service: \<open>hash\<close> is \<^verbatim>\<open>bcrypt.hash(data, rounds)\<close>,
  \<open>compare\<close> is \<^verbatim>\<open>bcrypt.compare(data, encrypted)\<close>.
\<close>

record Bcrypt =
  hash :: "string \<Rightarrow> nat \<Rightarrow> string"
  compare :: "string \<Rightarrow> string \<Rightarrow> bool"

type_synonym UsersRepository = "UserDocument Model"

text \<open>
  The filter \<^verbatim>\<open>{ _id: v }\<close> under a schema whose \<^verbatim>\<open>_id\<close> is an \<^verbatim>\<open>ObjectId\<close>. The cast lets
  \<^verbatim>\<open>null\<close> and \<^verbatim>\<open>undefined\<close> through, and no stored document has such an \<^verbatim>\<open>_id\<close>; it
  accepts the 24 hexadecimal digits of an \<^verbatim>\<open>ObjectId\<close>, also as the \<^verbatim>\<open>_id\<close> property of an
  object; it fails on every other value (objects are taken without query operators).
\<close>

definition id_filter :: "jsval \<Rightarrow> 'a AbstractDocument_scheme FilterQuery" where
  "id_filter v =
     (case v of
        HexId oid \<Rightarrow> Where (\<lambda>d. doc_id d = oid)
      | Null \<Rightarrow> Where (\<lambda>d. False)
      | Undefined \<Rightarrow> Where (\<lambda>d. False)
      | Obj ps \<Rightarrow> (case get_prop ps ''_id'' of
                    HexId oid \<Rightarrow> Where (\<lambda>d. doc_id d = oid)
                  | _ \<Rightarrow> Uncastable)
      | _ \<Rightarrow> Uncastable)"

text \<open>The filter \<^verbatim>\<open>{ email }\<close>: a string is cast to itself.\<close>

definition email_filter :: "string \<Rightarrow> UserDocument FilterQuery" where
  "email_filter e = Where (\<lambda>u. email u = e)"

definition validateCreateUserDto ::
  "CreateUserDto \<Rightarrow> UsersRepository \<Rightarrow> (error + unit) \<times> UsersRepository" where
  "validateCreateUserDto createUser m =
     (case findOne (email_filter (cu_email createUser)) m of
        (Inl error, m') \<Rightarrow> (Inr (), m')
      | (Inr found, m') \<Rightarrow> (Inl (UnprocessableEntityException ''Email already exist!''), m'))"

definition register ::
  "Bcrypt \<Rightarrow> CreateUserDto \<Rightarrow> UsersRepository \<Rightarrow> (error + UserDocument) \<times> UsersRepository" where
  "register bcrypt createUser m =
     (case validateCreateUserDto createUser m of
        (Inl e, m') \<Rightarrow> (Inl e, m')
      | (Inr u, m') \<Rightarrow>
          create (UserDocument.fields (cu_email createUser)
                    (hash bcrypt (cu_password createUser) 10)) m')"

definition verifyUser ::
  "Bcrypt \<Rightarrow> string \<Rightarrow> string \<Rightarrow> UsersRepository \<Rightarrow> (error + UserDocument) \<times> UsersRepository" where
  "verifyUser bcrypt email' password' m =
     (case findOne (email_filter email') m of
        (Inl e, m') \<Rightarrow> (Inl e, m')
      | (Inr user', m') \<Rightarrow>
          (let passwordIsValid = compare bcrypt password' (password user') in
           if \<not> passwordIsValid
           then (Inl (UnauthorizedException ''Credentials are not valid.''), m')
           else (Inr user', m')))"

definition getUser ::
  "GetUserDto \<Rightarrow> UsersRepository \<Rightarrow> (error + UserDocument) \<times> UsersRepository" where
  "getUser getUserDto m = findOne (id_filter (get_id getUserDto)) m"


section \<open>The authority: strategies, guards and controller of apps/auth\<close>

text \<open>\<^verbatim>\<open>LocalStrategy.validate\<close>: whatever \<open>verifyUser\<close> throws is rethrown wrapped.\<close>

definition LocalStrategy_validate ::
  "Bcrypt \<Rightarrow> string \<Rightarrow> string \<Rightarrow> UsersRepository \<Rightarrow> (error + UserDocument) \<times> UsersRepository" where
  "LocalStrategy_validate bcrypt email' password' m =
     (case verifyUser bcrypt email' password' m of
        (Inl error, m') \<Rightarrow> (Inl (UnauthorizedException_of error), m')
      | (Inr user', m') \<Rightarrow> (Inr user', m'))"

record ConfigService =
  JWT_SECRET :: string
  JWT_EXPIRATION :: nat

text \<open>
  \<^verbatim>\<open>JwtService.sign\<close> under the module's \<^verbatim>\<open>secret\<close> and \<^verbatim>\<open>expiresIn\<close>, at clock \<open>now\<close> (in
  seconds), and the check passport-jwt makes with \<^verbatim>\<open>secretOrKey\<close>: the signature must be
  by that key and the clock must be before the expiry. It yields the payload's \<open>userId\<close>.
\<close>

definition jwt_sign :: "ConfigService \<Rightarrow> nat \<Rightarrow> jsval \<Rightarrow> jsval" where
  "jwt_sign config now userId = Jwt userId (now + JWT_EXPIRATION config) (JWT_SECRET config)"

definition jwt_verify :: "string \<Rightarrow> nat \<Rightarrow> jsval \<Rightarrow> jsval option" where
  "jwt_verify secretOrKey now token =
     (case token of
        Jwt userId expiry key \<Rightarrow> if key = secretOrKey \<and> now < expiry then Some userId else None
      | _ \<Rightarrow> None)"

text \<open>
  \<^verbatim>\<open>AuthService.login\<close>: signs \<^verbatim>\<open>{ userId: user._id.toHexString() }\<close> and sets the cookie
  \<^verbatim>\<open>Authentication\<close> on the response. The cookie's attributes are not recorded.
\<close>

record Response =
  res_cookies :: "(string \<times> jsval) list"

definition login :: "ConfigService \<Rightarrow> nat \<Rightarrow> UserDocument \<Rightarrow> Response \<Rightarrow> Response" where
  "login config now user' response =
     (let token = jwt_sign config now (HexId (doc_id user'))
      in response\<lparr>res_cookies := (''Authentication'', token) # res_cookies response\<rparr>)"

text \<open>
  The extractor handed to \<^verbatim>\<open>ExtractJwt.fromExtractors\<close>. Its last operand reads
  \<^verbatim>\<open>request?.headers.Authentication\<close> without a guard on \<^verbatim>\<open>headers\<close>.
\<close>

definition jwtFromRequest :: "'u Request \<Rightarrow> error + jsval" where
  "jwtFromRequest request =
     (let c = opt_prop (cookies request) ''Authentication'' in
      if truthy c then Inr c
      else if truthy (Authentication request) then Inr (Authentication request)
      else (case headers request of
              None \<Rightarrow> Inl TypeError
            | Some hs \<Rightarrow> Inr (get_prop hs ''Authentication'')))"

text \<open>\<^verbatim>\<open>JwtStrategy.validate({ userId })\<close>.\<close>

definition validate ::
  "jsval \<Rightarrow> UsersRepository \<Rightarrow> (error + UserDocument) \<times> UsersRepository" where
  "validate userId m = getUser \<lparr>get_id = userId\<rparr> m"

text \<open>
  \<^verbatim>\<open>AuthGuard('jwt').canActivate\<close> of the passport library, run with the strategy above:
  no token or a token that fails verification is an \<^verbatim>\<open>UnauthorizedException\<close>, an
  exception of \<open>validate\<close> is rethrown as it is, and the validated user is written to
  \<^verbatim>\<open>request.user\<close>.
\<close>

definition passport_canActivate ::
  "ConfigService \<Rightarrow> nat \<Rightarrow> UserDocument option Request \<Rightarrow> UsersRepository
     \<Rightarrow> (error + bool \<times> UserDocument option Request) \<times> UsersRepository" where
  "passport_canActivate config now request m =
     (case jwtFromRequest request of
        Inl e \<Rightarrow> (Inl e, m)
      | Inr token \<Rightarrow>
          if \<not> truthy token then (Inl (UnauthorizedException ''Unauthorized''), m)
          else (case jwt_verify (JWT_SECRET config) now token of
                  None \<Rightarrow> (Inl (UnauthorizedException ''Unauthorized''), m)
                | Some userId \<Rightarrow>
                    (case validate userId m of
                       (Inl e, m') \<Rightarrow> (Inl e, m')
                     | (Inr u, m') \<Rightarrow> (Inr (True, request\<lparr>user := Some u\<rparr>), m'))))"

text \<open>\<^verbatim>\<open>JwtAuthGuard.canActivate\<close> of apps/auth/src/guards.\<close>

definition auth_canActivate ::
  "ConfigService \<Rightarrow> nat \<Rightarrow> UserDocument option Request \<Rightarrow> UsersRepository
     \<Rightarrow> (error + bool \<times> UserDocument option Request) \<times> UsersRepository" where
  "auth_canActivate config now request m =
     (case passport_canActivate config now request m of
        (Inl e, m') \<Rightarrow> (Inl e, m')
      | (Inr (canActivate', request'), m') \<Rightarrow>
          if \<not> canActivate' then (Inr (False, request'), m')
          else (Inr (True, request'), m'))"

text \<open>
  \<^verbatim>\<open>AuthController.authenticate\<close> returns \<^verbatim>\<open>data.user\<close>; \<open>on_authenticate\<close> is the message
  pattern with its guard in front, as Nest runs it: a guard that returns \<^verbatim>\<open>false\<close> is a
  \<^verbatim>\<open>ForbiddenException\<close>.
\<close>

definition authenticate :: "UserDocument option Request \<Rightarrow> UserDocument option" where
  "authenticate data = user data"

definition on_authenticate ::
  "ConfigService \<Rightarrow> nat \<Rightarrow> UserDocument option Request \<Rightarrow> UsersRepository
     \<Rightarrow> (error + UserDocument option) \<times> UsersRepository" where
  "on_authenticate config now data m =
     (case auth_canActivate config now data m of
        (Inl e, m') \<Rightarrow> (Inl e, m')
      | (Inr (allowed, data'), m') \<Rightarrow>
          if allowed then (Inr (authenticate data'), m') else (Inl ForbiddenException, m'))"

text \<open>
  The reply as the TCP transport writes it: the JSON of the returned lean document, with
  every property of the \<^verbatim>\<open>UserDocument\<close> schema (the tutorial's \<^verbatim>\<open>UserDTO\<close> interface
  declares the same three).
\<close>

definition serialize :: "UserDocument option \<Rightarrow> jsval" where
  "serialize reply =
     (case reply of
        None \<Rightarrow> Undefined
      | Some u \<Rightarrow> Obj [(''_id'', HexId (doc_id u)), (''email'', Str (email u)),
                       (''password'', Str (password u))])"


section \<open>JwtAuthGuard (libs/common)\<close>

text \<open>
  The guard's \<^verbatim>\<open>ClientProxy\<close>: \<open>respond\<close> is what the authority answers to a message
  (\<open>Inl\<close>: the observable errors), \<open>sent\<close> the messages sent so far.
\<close>

record ClientProxy =
  respond :: "string \<Rightarrow> jsval \<Rightarrow> error + jsval"
  sent :: "(string \<times> jsval) list"

definition send :: "string \<Rightarrow> jsval \<Rightarrow> ClientProxy \<Rightarrow> (error + jsval) \<times> ClientProxy" where
  "send pattern data client =
     (respond client pattern data, client\<lparr>sent := sent client @ [(pattern, data)]\<rparr>)"

text \<open>
  The request object a guarded HTTP route hands to the guard. Node's HTTP parser delivers
  the names of the incoming headers in lower case, whatever the client wrote;
  \<^verbatim>\<open>cookie-parser\<close> supplies \<^verbatim>\<open>cookies\<close> under the names the client used; an incoming
  request has no \<^verbatim>\<open>Authentication\<close> property and no \<^verbatim>\<open>user\<close> yet.
\<close>

definition to_lower :: "char \<Rightarrow> char" where
  "to_lower c =
     (case map_of (zip ''ABCDEFGHIJKLMNOPQRSTUVWXYZ'' ''abcdefghijklmnopqrstuvwxyz'') c of
        None \<Rightarrow> c
      | Some l \<Rightarrow> l)"

definition incoming_request ::
  "(string \<times> jsval) list \<Rightarrow> (string \<times> jsval) list \<Rightarrow> jsval Request" where
  "incoming_request sent_cookies sent_headers =
     \<lparr>cookies = Some sent_cookies, Authentication = Undefined,
      headers = Some (map (\<lambda>(name, v). (map to_lower name, v)) sent_headers),
      user = Undefined\<rparr>"

text \<open>The expression bound to \<^verbatim>\<open>jwt\<close> in \<open>canActivate\<close>.\<close>

definition extract_jwt :: "jsval Request \<Rightarrow> jsval" where
  "extract_jwt request =
     js_or (opt_prop (cookies request) ''Authentication'')
       (js_or (Authentication request)
          (opt_prop (headers request) ''Authentication''))"

definition canActivate ::
  "jsval Request \<Rightarrow> ClientProxy \<Rightarrow> bool \<times> jsval Request \<times> ClientProxy" where
  "canActivate request authClient =
     (let jwt = extract_jwt request in
      if \<not> truthy jwt then (False, request, authClient)
      else (case send ''authenticate'' (Obj [(''Authentication'', jwt)]) authClient of
              (Inr res, authClient') \<Rightarrow> (True, request\<lparr>user := res\<rparr>, authClient')
            | (Inl e, authClient') \<Rightarrow> (False, request, authClient')))"

text \<open>
  The order of precedence in the words of the specification: the first non-empty value
  among cookie, request field and header, if there is one.
\<close>

definition first_non_empty :: "jsval list \<Rightarrow> jsval option" where
  "first_non_empty vs = List.find truthy vs"


section \<open>A run of the authority from registration to authentication\<close>

text \<open>
  The example scenario as one computation: register a user, validate the same credentials
  through \<^verbatim>\<open>LocalStrategy\<close>, log in at time \<open>t0\<close>, and send the cookie's token to the
  \<^verbatim>\<open>authenticate\<close> pattern at time \<open>t1\<close> as the guard of another service does, in the
  property \<^verbatim>\<open>Authentication\<close> of the message. The result is the reply on the wire.
\<close>

definition login_then_authenticate ::
  "Bcrypt \<Rightarrow> ConfigService \<Rightarrow> nat \<Rightarrow> nat \<Rightarrow> CreateUserDto \<Rightarrow> UsersRepository \<Rightarrow> error + jsval" where
  "login_then_authenticate bcrypt config t0 t1 createUser m0 =
     (case register bcrypt createUser m0 of
        (Inl e, m1) \<Rightarrow> Inl e
      | (Inr created, m1) \<Rightarrow>
          (case LocalStrategy_validate bcrypt (cu_email createUser) (cu_password createUser) m1 of
             (Inl e, m2) \<Rightarrow> Inl e
           | (Inr user', m2) \<Rightarrow>
               (let response = login config t0 user' \<lparr>res_cookies = []\<rparr>;
                    token = get_prop (res_cookies response) ''Authentication''
                in case on_authenticate config t1
                          \<lparr>cookies = None, Authentication = token, headers = None, user = None\<rparr> m2 of
                     (Inl e, m3) \<Rightarrow> Inl e
                   | (Inr reply, m3) \<Rightarrow> Inr (serialize reply))))"

text \<open>
  An instance of the \<open>Bcrypt\<close> parameter on which examples are evaluated: a digest is its
  input behind a fixed prefix.
\<close>

definition bcrypt_stub :: Bcrypt where
  "bcrypt_stub = \<lparr>hash = (\<lambda>data rounds. ''$2a$10$'' @ data),
                   compare = (\<lambda>data encrypted. encrypted = ''$2a$10$'' @ data)\<rparr>"


section \<open>Properties of the repository\<close>

lemma docs_round_trip: "docs (round_trip m) = docs m"
  by (simp add: round_trip_def)

lemma find_no_match: "\<forall>d \<in> set ds. \<not> f d \<Longrightarrow> List.find f ds = None"
  by (simp add: find_None_iff)

lemma remove_first_no_match: "\<forall>d \<in> set ds. \<not> f d \<Longrightarrow> remove_first f ds = ds"
  by (induction ds) auto

lemma find_append_fresh:
  "\<forall>x \<in> set ds. \<not> f x \<Longrightarrow> f d \<Longrightarrow> List.find f (ds @ [d]) = Some d"
  by (induction ds) auto

lemma find_append_fresh_more:
  "\<forall>x \<in> set ds. \<not> f x \<Longrightarrow> f d \<Longrightarrow> List.find f (ds @ d # es) = Some d"
  by (induction ds) auto

lemma find_Some_holds: "List.find f ds = Some d \<Longrightarrow> f d"
  by (induction ds) (auto split: if_splits)

lemma findOne_up:
  "up m \<Longrightarrow> findOne (Where p) m =
     (case List.find p (docs m) of
        None \<Rightarrow> (Inl not_found, round_trip m)
      | Some d \<Rightarrow> (Inr d, round_trip m))"
  by (simp add: findOne_def model_findOne_def Let_def docs_round_trip split: option.splits)

lemma findOne_down: "\<not> up m \<Longrightarrow> findOne (Where p) m = (Inl MongoNetworkError, round_trip m)"
  by (simp add: findOne_def model_findOne_def Let_def)

lemma findOne_returns_match: "fst (findOne (Where p) m) = Inr d \<Longrightarrow> p d"
  by (cases "up m") (auto simp: findOne_up findOne_down dest: find_Some_holds split: option.splits)

lemma create_keeps_docs: "\<exists>ys. docs (snd (create document m)) = docs m @ ys"
proof -
  let ?c = "\<lparr>doc_id = ObjectId (oid_counter m), \<dots> = document\<rparr>"
  have "docs (snd (create document m)) = docs m
      \<or> docs (snd (create document m)) = docs m @ [?c]"
    by (simp add: create_def model_save_def Let_def docs_round_trip)
  then show ?thesis
  proof
    assume h: "docs (snd (create document m)) = docs m"
    show ?thesis by (rule exI [where x = "[]"]) (simp add: h)
  next
    assume h: "docs (snd (create document m)) = docs m @ [?c]"
    show ?thesis by (rule exI [where x = "[?c]"]) (simp add: h)
  qed
qed

lemma creates_keeps_docs: "\<exists>ys. docs (creates documents m) = docs m @ ys"
proof (induction documents arbitrary: m)
  case Nil
  show ?case by simp
next
  case (Cons x xs)
  from create_keeps_docs [of x m]
  obtain ys where a: "docs (snd (create x m)) = docs m @ ys"
    by (elim exE)
  from Cons.IH [of "snd (create x m)"]
  obtain zs where b: "docs (creates xs (snd (create x m))) = docs (snd (create x m)) @ zs"
    by (elim exE)
  show ?case by (rule exI [where x = "ys @ zs"]) (simp add: a b)
qed

text \<open>
  C1, as the code has it. For a filter that the schema can cast, that matches none of the
  stored documents, on a query the server answers: \<open>findOne\<close>, \<open>findOneAndUpdate\<close> (with an
  update that can be cast) and \<open>findOneAndDelete\<close> all fail with the same
  \<open>NotFoundException\<close> and leave the collection as it was, and \<open>find\<close> returns the empty
  list. For no filter and no state does \<open>find\<close> fail with \<open>NotFoundException\<close>. A filter
  that cannot be cast makes each of the four, \<open>find\<close> too, fail with \<open>CastError\<close>.
\<close>

theorem not_found_uniform:
  fixes m :: "'a AbstractDocument_scheme Model"
  assumes "\<forall>d \<in> set (docs m). \<not> p d" and "up m"
  shows "fst (findOne (Where p) m) = Inl (NotFoundException ''The document was not found'')
       \<and> fst (findOneAndUpdate (Where p) (Set g) m)
           = Inl (NotFoundException ''The document was not found'')
       \<and> fst (findOneAndDelete (Where p) m) = Inl (NotFoundException ''The document was not found'')
       \<and> fst (find (Where p) m) = Inr []
       \<and> docs (snd (findOne (Where p) m)) = docs m
       \<and> docs (snd (findOneAndUpdate (Where p) (Set g) m)) = docs m
       \<and> docs (snd (findOneAndDelete (Where p) m)) = docs m
       \<and> (\<forall>f (m' :: 'a AbstractDocument_scheme Model) msg.
             fst (find f m') \<noteq> Inl (NotFoundException msg))
       \<and> fst (findOne Uncastable m) = Inl CastError
       \<and> fst (findOneAndUpdate Uncastable u m) = Inl CastError
       \<and> fst (findOneAndDelete Uncastable m) = Inl CastError
       \<and> fst (find Uncastable m) = Inl CastError"
proof -
  have none: "List.find p (docs (round_trip m)) = None"
    using assms(1) by (simp add: docs_round_trip find_no_match)
  have same: "remove_first p (docs (round_trip m)) = docs m"
    using assms(1) by (simp add: docs_round_trip remove_first_no_match)
  have nomatch: "filter p (docs (round_trip m)) = []"
    using assms(1) by (simp add: docs_round_trip filter_empty_conv)
  have a: "findOne (Where p) m = (Inl not_found, round_trip m)"
    using assms(2) none by (simp add: findOne_def model_findOne_def Let_def)
  have b: "findOneAndUpdate (Where p) (Set g) m = (Inl not_found, round_trip m)"
    using assms(2) none by (simp add: findOneAndUpdate_def model_findOneAndUpdate_def Let_def)
  have c: "findOneAndDelete (Where p) m = (Inl not_found, (round_trip m)\<lparr>docs := docs m\<rparr>)"
    using assms(2) none same by (simp add: findOneAndDelete_def model_findOneAndDelete_def Let_def)
  have d: "find (Where p) m = (Inr [], round_trip m)"
    using assms(2) nomatch by (simp add: find_def model_find_def Let_def)
  have e: "fst (find f m') \<noteq> Inl (NotFoundException msg)"
    for f and m' :: "'a AbstractDocument_scheme Model" and msg
    by (cases f) (simp_all add: find_def model_find_def Let_def)
  have f: "fst (findOne Uncastable m) = Inl CastError"
    "fst (findOneAndUpdate Uncastable u m) = Inl CastError"
    "fst (findOneAndDelete Uncastable m) = Inl CastError"
    "fst (find Uncastable m) = Inl CastError"
    by (simp_all add: findOne_def model_findOne_def findOneAndUpdate_def
          model_findOneAndUpdate_def findOneAndDelete_def model_findOneAndDelete_def
          find_def model_find_def)
  show ?thesis
    using a b c d e f by (simp add: not_found_def docs_round_trip)
qed

theorem not_found_uniform_witness:
  "fst (findOne (Where (\<lambda>d. doc_id d = ObjectId 7))
          \<lparr>docs = [\<lparr>doc_id = ObjectId 1\<rparr>], link = [], oid_counter = 2\<rparr>)
     = Inl (NotFoundException ''The document was not found'')
   \<and> fst (findOneAndDelete (Where (\<lambda>d. doc_id d = ObjectId 7))
          \<lparr>docs = [\<lparr>doc_id = ObjectId 1\<rparr>], link = [], oid_counter = 2\<rparr>)
     = Inl (NotFoundException ''The document was not found'')
   \<and> fst (find (Where (\<lambda>d. doc_id d = ObjectId 7))
          \<lparr>docs = [\<lparr>doc_id = ObjectId 1\<rparr>], link = [], oid_counter = 2\<rparr>) = Inr []"
  using not_found_uniform [of "\<lparr>docs = [\<lparr>doc_id = ObjectId 1\<rparr>], link = [], oid_counter = 2\<rparr>"
      "\<lambda>d. doc_id d = ObjectId 7" id]
  by (simp add: up_def)

text \<open>
  The claim as first stated fails at the filter \<^verbatim>\<open>{ _id: 'abc' }\<close>, which matches none of
  the stored users: \<open>findOne\<close> fails with \<open>CastError\<close>, not with \<open>NotFoundException\<close>, and
  \<open>find\<close> fails as well.
\<close>

theorem uncastable_filter_counterexample:
  "fst (findOne (id_filter (Str ''abc''))
          \<lparr>docs = [\<lparr>doc_id = ObjectId 0, email = ''a@x.com'', password = ''$2a$10$pw123!''\<rparr>],
           link = [], oid_counter = 1\<rparr>) = Inl CastError
   \<and> fst (find (id_filter (Str ''abc''))
          \<lparr>docs = [\<lparr>doc_id = ObjectId 0, email = ''a@x.com'', password = ''$2a$10$pw123!''\<rparr>],
           link = [], oid_counter = 1\<rparr>) = Inl CastError"
  by (simp add: id_filter_def findOne_def model_findOne_def find_def model_find_def)

text \<open>
  C2. When \<open>create\<close> returns a document, then in the state it leaves, and in every state
  that further \<open>create\<close> calls lead to, a \<open>findOne\<close> by the returned \<open>_id\<close> which the
  server answers returns that same document; and a \<open>findOne\<close> by any other \<open>_id\<close> never
  returns it.
\<close>

theorem create_findOne_roundtrip:
  assumes "create document m = (Inr d, m1)" and "up (creates later m1)"
  shows "fst (findOne (Where (\<lambda>x. doc_id x = doc_id d)) (creates later m1)) = Inr d
       \<and> (\<forall>oid. oid \<noteq> doc_id d \<longrightarrow>
             fst (findOne (Where (\<lambda>x. doc_id x = oid)) (creates later m1)) \<noteq> Inr d)"
proof -
  let ?c = "\<lparr>doc_id = ObjectId (oid_counter m), \<dots> = document\<rparr>"
  let ?m = "round_trip (m\<lparr>oid_counter := Suc (oid_counter m)\<rparr>)"
  from assms(1) have d: "d = ?c"
    and fresh: "\<not> list_ex (\<lambda>x. doc_id x = doc_id ?c) (docs ?m)"
    and m1: "m1 = ?m\<lparr>docs := docs ?m @ [?c]\<rparr>"
    by (auto simp: create_def model_save_def Let_def split: if_splits)
  from fresh have older: "\<forall>x \<in> set (docs ?m). \<not> doc_id x = doc_id d"
    by (simp add: d list_ex_iff)
  from creates_keeps_docs [of later m1]
  obtain ys where later: "docs (creates later m1) = docs m1 @ ys"
    by (elim exE)
  have "docs (creates later m1) = docs ?m @ d # ys"
    using later unfolding m1 d by simp
  then have "List.find (\<lambda>x. doc_id x = doc_id d) (docs (creates later m1)) = Some d"
    using older by (simp add: find_append_fresh_more)
  then have found: "fst (findOne (Where (\<lambda>x. doc_id x = doc_id d)) (creates later m1)) = Inr d"
    using assms(2) by (simp add: findOne_up)
  have other: "fst (findOne (Where (\<lambda>x. doc_id x = oid)) (creates later m1)) \<noteq> Inr d"
    if "oid \<noteq> doc_id d" for oid
    using that findOne_returns_match [of "\<lambda>x. doc_id x = oid" "creates later m1" d] by auto
  show ?thesis
    using found other by simp
qed

text \<open>
  The witness: a second document is created after the first, and the lookup by the first
  \<open>_id\<close> returns the first document, not the newest.
\<close>

theorem create_findOne_roundtrip_witness:
  "create () \<lparr>docs = [\<lparr>doc_id = ObjectId 0\<rparr>], link = [True], oid_counter = 1\<rparr>
     = (Inr \<lparr>doc_id = ObjectId 1\<rparr>,
        \<lparr>docs = [\<lparr>doc_id = ObjectId 0\<rparr>, \<lparr>doc_id = ObjectId 1\<rparr>], link = [], oid_counter = 2\<rparr>)
   \<and> docs (creates [()]
        \<lparr>docs = [\<lparr>doc_id = ObjectId 0\<rparr>, \<lparr>doc_id = ObjectId 1\<rparr>], link = [], oid_counter = 2\<rparr>)
     = [\<lparr>doc_id = ObjectId 0\<rparr>, \<lparr>doc_id = ObjectId 1\<rparr>, \<lparr>doc_id = ObjectId 2\<rparr>]
   \<and> fst (findOne (Where (\<lambda>x. doc_id x = ObjectId 1))
        (creates [()]
          \<lparr>docs = [\<lparr>doc_id = ObjectId 0\<rparr>, \<lparr>doc_id = ObjectId 1\<rparr>], link = [], oid_counter = 2\<rparr>))
     = Inr \<lparr>doc_id = ObjectId 1\<rparr>
   \<and> fst (findOne (Where (\<lambda>x. doc_id x = ObjectId 2))
        (creates [()]
          \<lparr>docs = [\<lparr>doc_id = ObjectId 0\<rparr>, \<lparr>doc_id = ObjectId 1\<rparr>], link = [], oid_counter = 2\<rparr>))
     \<noteq> Inr \<lparr>doc_id = ObjectId 1\<rparr>"
proof -
  let ?m1 = "\<lparr>docs = [\<lparr>doc_id = ObjectId 0\<rparr>, \<lparr>doc_id = ObjectId 1\<rparr>], link = [], oid_counter = 2\<rparr>"
  have c: "create () \<lparr>docs = [\<lparr>doc_id = ObjectId 0\<rparr>], link = [True], oid_counter = 1\<rparr>
     = (Inr \<lparr>doc_id = ObjectId 1\<rparr>, ?m1)"
    by (simp add: create_def model_save_def round_trip_def up_def Let_def)
  have l: "creates [()] ?m1
     = \<lparr>docs = [\<lparr>doc_id = ObjectId 0\<rparr>, \<lparr>doc_id = ObjectId 1\<rparr>, \<lparr>doc_id = ObjectId 2\<rparr>],
        link = [], oid_counter = 3\<rparr>"
    by (simp add: create_def model_save_def round_trip_def up_def Let_def)
  have u: "up (creates [()] ?m1)"
    unfolding l by (simp add: up_def)
  show ?thesis
    using create_findOne_roundtrip [OF c u] c l by simp
qed


section \<open>Properties of UsersService\<close>

lemma all_up: "\<forall>b \<in> set (link m). b \<Longrightarrow> up m"
  by (cases "link m") (auto simp: up_def)

lemma all_up_round_trip: "\<forall>b \<in> set (link m). b \<Longrightarrow> \<forall>b \<in> set (link (round_trip m)). b"
  by (cases "link m") (auto simp: round_trip_def)

lemmas service_defs =
  register_def validateCreateUserDto_def verifyUser_def LocalStrategy_validate_def getUser_def
  id_filter_def email_filter_def create_def findOne_def model_findOne_def model_save_def
  round_trip_def up_def login_def jwt_sign_def jwt_verify_def jwtFromRequest_def validate_def
  passport_canActivate_def auth_canActivate_def authenticate_def on_authenticate_def
  serialize_def opt_prop_def get_prop_def UserDocument.defs Let_def

text \<open>
  C6, as the code has it. On a lookup the server answers: when no stored user has the
  email, \<open>verifyUser\<close> fails with the repository's \<open>NotFoundException\<close>, and it is
  \<open>LocalStrategy.validate\<close>, its caller at login, that turns the failure into an
  \<open>UnauthorizedException\<close>; when the user stored under the email has a hash the password does
  not match, \<open>verifyUser\<close> fails with \<open>UnauthorizedException\<close>; when it matches, both return
  the stored user.
\<close>

theorem verifyUser_outcomes:
  assumes "up m"
  shows "((\<forall>u \<in> set (docs m). email u \<noteq> e) \<longrightarrow>
            fst (verifyUser bc e pw m) = Inl (NotFoundException ''The document was not found'')
          \<and> fst (LocalStrategy_validate bc e pw m)
              = Inl (UnauthorizedException_of (NotFoundException ''The document was not found'')))
       \<and> (\<forall>u. List.find (\<lambda>u. email u = e) (docs m) = Some u \<and> \<not> compare bc pw (password u) \<longrightarrow>
            fst (verifyUser bc e pw m) = Inl (UnauthorizedException ''Credentials are not valid.'')
          \<and> fst (LocalStrategy_validate bc e pw m)
              = Inl (UnauthorizedException_of (UnauthorizedException ''Credentials are not valid.'')))
       \<and> (\<forall>u. List.find (\<lambda>u. email u = e) (docs m) = Some u \<and> compare bc pw (password u) \<longrightarrow>
            fst (verifyUser bc e pw m) = Inr u
          \<and> fst (LocalStrategy_validate bc e pw m) = Inr u)"
proof -
  have "(\<forall>u \<in> set (docs m). email u \<noteq> e) \<Longrightarrow> List.find (\<lambda>u. email u = e) (docs m) = None"
    by (simp add: find_None_iff)
  then show ?thesis
    using assms
    by (auto simp: verifyUser_def LocalStrategy_validate_def email_filter_def findOne_up
          not_found_def Let_def)
qed

theorem verifyUser_outcomes_witness:
  "fst (verifyUser bcrypt_stub ''b@x.com'' ''pw123!''
          \<lparr>docs = [\<lparr>doc_id = ObjectId 0, email = ''a@x.com'', password = ''$2a$10$pw123!''\<rparr>],
           link = [], oid_counter = 1\<rparr>)
     = Inl (NotFoundException ''The document was not found'')
   \<and> fst (verifyUser bcrypt_stub ''a@x.com'' ''wrong''
          \<lparr>docs = [\<lparr>doc_id = ObjectId 0, email = ''a@x.com'', password = ''$2a$10$pw123!''\<rparr>],
           link = [], oid_counter = 1\<rparr>)
     = Inl (UnauthorizedException ''Credentials are not valid.'')
   \<and> fst (verifyUser bcrypt_stub ''a@x.com'' ''pw123!''
          \<lparr>docs = [\<lparr>doc_id = ObjectId 0, email = ''a@x.com'', password = ''$2a$10$pw123!''\<rparr>],
           link = [], oid_counter = 1\<rparr>)
     = Inr \<lparr>doc_id = ObjectId 0, email = ''a@x.com'', password = ''$2a$10$pw123!''\<rparr>"
proof -
  let ?m = "\<lparr>docs = [\<lparr>doc_id = ObjectId 0, email = ''a@x.com'', password = ''$2a$10$pw123!''\<rparr>],
             link = [], oid_counter = 1\<rparr>"
  have u: "up ?m" by (simp add: up_def)
  show ?thesis
    using verifyUser_outcomes [OF u, of "''b@x.com''" bcrypt_stub "''pw123!''"]
      verifyUser_outcomes [OF u, of "''a@x.com''" bcrypt_stub "''wrong''"]
      verifyUser_outcomes [OF u, of "''a@x.com''" bcrypt_stub "''pw123!''"]
    by (simp add: bcrypt_stub_def)
qed

text \<open>
  The claim as first stated fails for an unknown email: \<open>verifyUser\<close> on an empty
  collection fails with \<open>NotFoundException\<close>, which is not an \<open>UnauthorizedException\<close>.
\<close>

theorem verifyUser_unknown_email_counterexample:
  "fst (verifyUser bcrypt_stub ''nobody@x.com'' ''pw123!'' \<lparr>docs = [], link = [], oid_counter = 0\<rparr>)
     = Inl (NotFoundException ''The document was not found'')
   \<and> \<not> is_Unauthorized (NotFoundException ''The document was not found'')"
  by (simp add: service_defs not_found_def)

text \<open>
  When a user with the email is already stored and the server answers the lookup,
  \<open>register\<close> fails with the duplicate-email exception, which is neither the repository's
  \<open>NotFoundException\<close> nor an \<open>UnauthorizedException\<close>. The failure comes from the lookup
  alone: no document is written, no \<open>_id\<close> is drawn, the collection is as it was, and a
  following lookup by that email returns the first user.
\<close>

lemma register_duplicate_conflict:
  assumes "List.find (\<lambda>u. email u = cu_email dto) (docs m) = Some u0" and "up m"
  shows "fst (register bc dto m) = Inl (UnprocessableEntityException ''Email already exist!'')
       \<and> \<not> is_NotFound (UnprocessableEntityException ''Email already exist!'')
       \<and> \<not> is_Unauthorized (UnprocessableEntityException ''Email already exist!'')
       \<and> docs (snd (register bc dto m)) = docs m
       \<and> oid_counter (snd (register bc dto m)) = oid_counter m
       \<and> (up (snd (register bc dto m)) \<longrightarrow>
            fst (findOne (email_filter (cu_email dto)) (snd (register bc dto m))) = Inr u0)"
proof -
  have r: "register bc dto m
             = (Inl (UnprocessableEntityException ''Email already exist!''), round_trip m)"
    using assms by (simp add: register_def validateCreateUserDto_def email_filter_def findOne_up)
  show ?thesis
    using assms(1)
    by (simp add: r docs_round_trip email_filter_def findOne_up) (simp add: round_trip_def)
qed

text \<open>
  C7. The claim fails on the code when the lookup's round trip is lost. A user with the
  email \<^verbatim>\<open>a@x.com\<close> is stored; the lookup of \<open>register\<close> for the same email is lost and the
  insert after it is not. \<open>register\<close> does not fail: it returns a second user with the
  taken email, and the collection holds both.
\<close>

theorem register_stores_duplicate_when_lookup_lost:
  "register bcrypt_stub \<lparr>cu_email = ''a@x.com'', cu_password = ''second''\<rparr>
     \<lparr>docs = [\<lparr>doc_id = ObjectId 0, email = ''a@x.com'', password = ''$2a$10$first''\<rparr>],
      link = [False, True], oid_counter = 1\<rparr>
   = (Inr \<lparr>doc_id = ObjectId 1, email = ''a@x.com'', password = ''$2a$10$second''\<rparr>,
      \<lparr>docs = [\<lparr>doc_id = ObjectId 0, email = ''a@x.com'', password = ''$2a$10$first''\<rparr>,
               \<lparr>doc_id = ObjectId 1, email = ''a@x.com'', password = ''$2a$10$second''\<rparr>],
       link = [], oid_counter = 2\<rparr>)"
  by (simp add: bcrypt_stub_def service_defs)

text \<open>
  C9. In \<open>register\<close>, every failure of the lookup by email counts as "not taken": whatever
  the error, \<open>validateCreateUserDto\<close> returns normally and \<open>register\<close> is the \<open>create\<close> of the
  user with the hashed password, run on the state the lookup left. Only a lookup that
  returns a user ends \<open>register\<close> with the duplicate-email exception, with nothing else
  done. A lost round trip is such a failure: the lookup then fails with the driver's
  network error.
\<close>

theorem lookup_failure_swallowed:
  "(\<forall>e. fst (findOne (email_filter (cu_email dto)) m) = Inl e \<longrightarrow>
        fst (validateCreateUserDto dto m) = Inr ()
      \<and> register bc dto m
          = create (UserDocument.fields (cu_email dto) (hash bc (cu_password dto) 10))
              (snd (findOne (email_filter (cu_email dto)) m)))
 \<and> (\<forall>u. fst (findOne (email_filter (cu_email dto)) m) = Inr u \<longrightarrow>
        fst (register bc dto m) = Inl (UnprocessableEntityException ''Email already exist!'')
      \<and> snd (register bc dto m) = snd (findOne (email_filter (cu_email dto)) m))
 \<and> (\<not> up m \<longrightarrow> fst (findOne (email_filter (cu_email dto)) m) = Inl MongoNetworkError)"
proof -
  obtain res m' where l: "findOne (email_filter (cu_email dto)) m = (res, m')"
    by (cases "findOne (email_filter (cu_email dto)) m")
  have swallowed: "validateCreateUserDto dto m = (Inr (), m')" if "res = Inl e" for e
    using that by (simp add: validateCreateUserDto_def l)
  have taken: "validateCreateUserDto dto m
                 = (Inl (UnprocessableEntityException ''Email already exist!''), m')"
    if "res = Inr u" for u
    using that by (simp add: validateCreateUserDto_def l)
  have lost: "\<not> up m \<Longrightarrow> res = Inl MongoNetworkError"
    using l by (simp add: email_filter_def findOne_down)
  show ?thesis
    using swallowed taken lost by (auto simp: register_def l)
qed

text \<open>
  The witness: the email is taken, the lookup's round trip is lost and the next one is
  not; a second user with the same email is stored.
\<close>

theorem lookup_failure_swallowed_witness:
  "fst (findOne (email_filter ''a@x.com'')
          \<lparr>docs = [\<lparr>doc_id = ObjectId 0, email = ''a@x.com'', password = ''$2a$10$pw123!''\<rparr>],
           link = [False], oid_counter = 1\<rparr>) = Inl MongoNetworkError
   \<and> register bcrypt_stub \<lparr>cu_email = ''a@x.com'', cu_password = ''other''\<rparr>
          \<lparr>docs = [\<lparr>doc_id = ObjectId 0, email = ''a@x.com'', password = ''$2a$10$pw123!''\<rparr>],
           link = [False], oid_counter = 1\<rparr>
     = (Inr \<lparr>doc_id = ObjectId 1, email = ''a@x.com'', password = ''$2a$10$other''\<rparr>,
        \<lparr>docs = [\<lparr>doc_id = ObjectId 0, email = ''a@x.com'', password = ''$2a$10$pw123!''\<rparr>,
                 \<lparr>doc_id = ObjectId 1, email = ''a@x.com'', password = ''$2a$10$other''\<rparr>],
         link = [], oid_counter = 2\<rparr>)"
proof -
  let ?m = "\<lparr>docs = [\<lparr>doc_id = ObjectId 0, email = ''a@x.com'', password = ''$2a$10$pw123!''\<rparr>],
             link = [False], oid_counter = 1\<rparr>"
  let ?dto = "\<lparr>cu_email = ''a@x.com'', cu_password = ''other''\<rparr>"
  have d: "\<not> up ?m" by (simp add: up_def)
  have l: "findOne (email_filter (cu_email ?dto)) ?m = (Inl MongoNetworkError, round_trip ?m)"
    using d by (simp add: email_filter_def findOne_down)
  show ?thesis
    using lookup_failure_swallowed [of ?dto ?m bcrypt_stub] l
    by (simp add: bcrypt_stub_def create_def model_save_def round_trip_def up_def
          UserDocument.defs Let_def)
qed


section \<open>Properties of the authority\<close>

lemma register_fresh:
  assumes "\<forall>b \<in> set (link m). b"
      and "\<forall>u \<in> set (docs m). email u \<noteq> cu_email dto"
      and "\<forall>u \<in> set (docs m). doc_id u \<noteq> ObjectId (oid_counter m)"
  shows "register bc dto m =
           (Inr \<lparr>doc_id = ObjectId (oid_counter m), email = cu_email dto,
                  password = hash bc (cu_password dto) 10\<rparr>,
            (round_trip (round_trip m))
              \<lparr>docs := docs m @ [\<lparr>doc_id = ObjectId (oid_counter m), email = cu_email dto,
                                   password = hash bc (cu_password dto) 10\<rparr>],
               oid_counter := Suc (oid_counter m)\<rparr>)"
proof -
  have n: "List.find (\<lambda>u. email u = cu_email dto) (docs m) = None"
    using assms(2) by (simp add: find_None_iff)
  have u1: "up m" using assms(1) by (rule all_up)
  have u2: "up (round_trip m)" using assms(1) by (intro all_up all_up_round_trip)
  have v: "validateCreateUserDto dto m = (Inr (), round_trip m)"
    using u1 n by (simp add: validateCreateUserDto_def email_filter_def findOne_up)
  have nd: "\<not> list_ex (\<lambda>x. doc_id x = ObjectId (oid_counter m)) (docs m)"
    using assms(3) by (simp add: list_ex_iff)
  show ?thesis
    using u2 nd
    by (simp add: register_def v create_def model_save_def Let_def UserDocument.defs)
       (simp add: round_trip_def up_def)
qed

lemma on_authenticate_token:
  assumes "up m" and "List.find (\<lambda>u. doc_id u = oid) (docs m) = Some u"
      and "t1 < t0 + JWT_EXPIRATION cfg"
  shows "on_authenticate cfg t1
           \<lparr>cookies = None, Authentication = jwt_sign cfg t0 (HexId oid), headers = None, user = None\<rparr> m
         = (Inr (Some u), round_trip m)"
  using assms
  by (simp add: on_authenticate_def auth_canActivate_def passport_canActivate_def
        jwtFromRequest_def opt_prop_def jwt_sign_def jwt_verify_def validate_def getUser_def
        id_filter_def findOne_up authenticate_def)

text \<open>
  C8, as the code has it. Let the server answer every query, no stored user have the new
  email or the \<open>_id\<close> about to be drawn, \<open>compare\<close> accept a password against its own hash,
  and the token be presented before it expires. Then \<open>register\<close> stores the user, and
  logging in and authenticating with the token resolves to that user's stored document:
  the same \<open>_id\<close>, the same email, and the \<open>password\<close> property holding the stored hash.
\<close>

theorem login_then_authenticate_reply:
  assumes link: "\<forall>b \<in> set (link m0). b"
      and email: "\<forall>u \<in> set (docs m0). email u \<noteq> cu_email dto"
      and oid: "\<forall>u \<in> set (docs m0). doc_id u \<noteq> ObjectId (oid_counter m0)"
      and cmp: "compare bc (cu_password dto) (hash bc (cu_password dto) 10)"
      and time: "t1 < t0 + JWT_EXPIRATION cfg"
  shows "fst (register bc dto m0)
           = Inr \<lparr>doc_id = ObjectId (oid_counter m0), email = cu_email dto,
                   password = hash bc (cu_password dto) 10\<rparr>
       \<and> login_then_authenticate bc cfg t0 t1 dto m0
           = Inr (Obj [(''_id'', HexId (ObjectId (oid_counter m0))), (''email'', Str (cu_email dto)),
                       (''password'', Str (hash bc (cu_password dto) 10))])"
proof -
  let ?u = "\<lparr>doc_id = ObjectId (oid_counter m0), email = cu_email dto,
              password = hash bc (cu_password dto) 10\<rparr>"
  let ?m1 = "(round_trip (round_trip m0))\<lparr>docs := docs m0 @ [?u], oid_counter := Suc (oid_counter m0)\<rparr>"
  have reg: "register bc dto m0 = (Inr ?u, ?m1)"
    using link email oid by (rule register_fresh)
  have l2: "\<forall>b \<in> set (link (round_trip (round_trip m0))). b"
    using link by (intro all_up_round_trip)
  have l1: "\<forall>b \<in> set (link ?m1). b"
    using l2 by simp
  have up1: "up ?m1" using l1 by (rule all_up)
  have up2: "up (round_trip ?m1)" using l1 by (intro all_up all_up_round_trip)
  have by_email: "List.find (\<lambda>u. email u = cu_email dto) (docs ?m1) = Some ?u"
    using email by (simp add: find_append_fresh)
  have by_id: "List.find (\<lambda>u. doc_id u = ObjectId (oid_counter m0)) (docs (round_trip ?m1)) = Some ?u"
    using oid by (simp add: docs_round_trip find_append_fresh)
  have ver: "LocalStrategy_validate bc (cu_email dto) (cu_password dto) ?m1 = (Inr ?u, round_trip ?m1)"
    using up1 by_email cmp
    by (simp add: LocalStrategy_validate_def verifyUser_def email_filter_def findOne_up)
  have tok: "get_prop (res_cookies (login cfg t0 ?u \<lparr>res_cookies = []\<rparr>)) ''Authentication''
               = jwt_sign cfg t0 (HexId (ObjectId (oid_counter m0)))"
    by (simp add: login_def get_prop_def Let_def)
  have auth: "on_authenticate cfg t1
                \<lparr>cookies = None, Authentication = jwt_sign cfg t0 (HexId (ObjectId (oid_counter m0))),
                 headers = None, user = None\<rparr> (round_trip ?m1)
              = (Inr (Some ?u), round_trip (round_trip ?m1))"
    using up2 by_id time by (rule on_authenticate_token)
  have "login_then_authenticate bc cfg t0 t1 dto m0 = Inr (serialize (Some ?u))"
    unfolding login_then_authenticate_def reg
    by (simp only: prod.case sum.case ver Let_def tok auth)
  then show ?thesis
    by (simp add: reg serialize_def)
qed

theorem login_then_authenticate_reply_witness:
  "login_then_authenticate bcrypt_stub \<lparr>JWT_SECRET = ''k'', JWT_EXPIRATION = 60\<rparr> 100 159
     \<lparr>cu_email = ''b@x.com'', cu_password = ''hunter2''\<rparr>
     \<lparr>docs = [\<lparr>doc_id = ObjectId 0, email = ''a@x.com'', password = ''$2a$10$pw123!''\<rparr>],
      link = [True, True], oid_counter = 1\<rparr>
   = Inr (Obj [(''_id'', HexId (ObjectId 1)), (''email'', Str ''b@x.com''),
               (''password'', Str ''$2a$10$hunter2'')])"
proof -
  let ?m = "\<lparr>docs = [\<lparr>doc_id = ObjectId 0, email = ''a@x.com'', password = ''$2a$10$pw123!''\<rparr>],
             link = [True, True], oid_counter = 1\<rparr>"
  let ?dto = "\<lparr>cu_email = ''b@x.com'', cu_password = ''hunter2''\<rparr>"
  let ?cfg = "\<lparr>JWT_SECRET = ''k'', JWT_EXPIRATION = 60\<rparr>"
  have a: "\<forall>b \<in> set (link ?m). b" by simp
  have b: "\<forall>u \<in> set (docs ?m). email u \<noteq> cu_email ?dto" by simp
  have c: "\<forall>u \<in> set (docs ?m). doc_id u \<noteq> ObjectId (oid_counter ?m)" by simp
  have d: "compare bcrypt_stub (cu_password ?dto) (hash bcrypt_stub (cu_password ?dto) 10)"
    by (simp add: bcrypt_stub_def)
  have e: "(159::nat) < 100 + JWT_EXPIRATION ?cfg" by simp
  show ?thesis
    using login_then_authenticate_reply [OF a b c d e] by (simp add: bcrypt_stub_def)
qed

text \<open>
  The claim as first stated fails on the example scenario: for the user \<^verbatim>\<open>a@x.com\<close> with
  secret \<^verbatim>\<open>pw123!\<close>, the reply to \<^verbatim>\<open>authenticate\<close> has a \<^verbatim>\<open>password\<close> property.
\<close>

theorem authenticate_exposes_password_counterexample:
  "login_then_authenticate bcrypt_stub \<lparr>JWT_SECRET = ''s'', JWT_EXPIRATION = 3600\<rparr> 0 10
     \<lparr>cu_email = ''a@x.com'', cu_password = ''pw123!''\<rparr> \<lparr>docs = [], link = [], oid_counter = 0\<rparr>
   = Inr (Obj [(''_id'', HexId (ObjectId 0)), (''email'', Str ''a@x.com''),
               (''password'', Str ''$2a$10$pw123!'')])"
  by (simp add: login_then_authenticate_def bcrypt_stub_def service_defs)


section \<open>Properties of the guard in libs/common\<close>

lemma canActivate_no_credential:
  "\<not> truthy (extract_jwt r) \<Longrightarrow> canActivate r c = (False, r, c)"
  by (simp add: canActivate_def)

lemma canActivate_credential:
  "truthy (extract_jwt r) \<Longrightarrow>
   canActivate r c =
     (case respond c ''authenticate'' (Obj [(''Authentication'', extract_jwt r)]) of
        Inr res \<Rightarrow> (True, r\<lparr>user := res\<rparr>,
                     c\<lparr>sent := sent c @ [(''authenticate'', Obj [(''Authentication'', extract_jwt r)])]\<rparr>)
      | Inl e \<Rightarrow> (False, r,
                     c\<lparr>sent := sent c @ [(''authenticate'', Obj [(''Authentication'', extract_jwt r)])]\<rparr>))"
  by (simp add: canActivate_def send_def split: sum.splits)

lemma extract_jwt_cases:
  "extract_jwt r =
     (if truthy (opt_prop (cookies r) ''Authentication'') then opt_prop (cookies r) ''Authentication''
      else if truthy (Authentication r) then Authentication r
      else opt_prop (headers r) ''Authentication'')"
  by (simp add: extract_jwt_def js_or_def)

text \<open>
  The expression reads three properties, \<open>c\<close> from \<^verbatim>\<open>cookies\<close>, \<open>f\<close> from the request object
  and \<open>h\<close> from \<^verbatim>\<open>headers\<close>, each under the name \<^verbatim>\<open>Authentication\<close>, and yields the first
  non-empty one in that order.
\<close>

lemma extraction_order:
  fixes r :: "jsval Request"
  defines "c \<equiv> opt_prop (cookies r) ''Authentication''"
      and "f \<equiv> Authentication r"
      and "h \<equiv> opt_prop (headers r) ''Authentication''"
  shows "(truthy c \<longrightarrow> extract_jwt r = c)
       \<and> (\<not> truthy c \<and> truthy f \<longrightarrow> extract_jwt r = f)
       \<and> (\<not> truthy c \<and> \<not> truthy f \<longrightarrow> extract_jwt r = h)
       \<and> (\<forall>v. first_non_empty [c, f, h] = Some v \<longrightarrow> extract_jwt r = v)
       \<and> (first_non_empty [c, f, h] = None \<longrightarrow> \<not> truthy (extract_jwt r))"
  unfolding c_def f_def h_def
  by (auto simp: extract_jwt_cases first_non_empty_def split: if_splits)

text \<open>
  C3. The claim fails on the code for the third location. A client sends a valid token
  in the header \<^verbatim>\<open>Authentication\<close> and nothing else. The request object holds the header
  under the name \<^verbatim>\<open>authentication\<close>; the guard reads \<^verbatim>\<open>headers.Authentication\<close>, finds no
  credential, and rejects without a message to the authority. The same token in the cookie
  \<^verbatim>\<open>Authentication\<close> is the credential.
\<close>

theorem header_credential_not_found:
  "opt_prop (headers (incoming_request [] [(''Authentication'', Jwt (HexId (ObjectId 0)) 3600 ''s'')]))
       ''authentication'' = Jwt (HexId (ObjectId 0)) 3600 ''s''
   \<and> extract_jwt (incoming_request [] [(''Authentication'', Jwt (HexId (ObjectId 0)) 3600 ''s'')])
       = Undefined
   \<and> canActivate (incoming_request [] [(''Authentication'', Jwt (HexId (ObjectId 0)) 3600 ''s'')])
         client
       = (False, incoming_request [] [(''Authentication'', Jwt (HexId (ObjectId 0)) 3600 ''s'')],
          client)
   \<and> extract_jwt (incoming_request [(''Authentication'', Jwt (HexId (ObjectId 0)) 3600 ''s'')] [])
       = Jwt (HexId (ObjectId 0)) 3600 ''s''"
proof -
  have r: "incoming_request [] [(''Authentication'', Jwt (HexId (ObjectId 0)) 3600 ''s'')]
             = \<lparr>cookies = Some [], Authentication = Undefined,
                headers = Some [(''authentication'', Jwt (HexId (ObjectId 0)) 3600 ''s'')],
                user = Undefined\<rparr>"
    by (simp add: incoming_request_def to_lower_def)
  have none: "extract_jwt (incoming_request [] [(''Authentication'', Jwt (HexId (ObjectId 0)) 3600 ''s'')])
                = Undefined"
    by (simp add: r extract_jwt_cases opt_prop_def get_prop_def)
  have rejected: "canActivate (incoming_request [] [(''Authentication'', Jwt (HexId (ObjectId 0)) 3600 ''s'')])
                     client
                   = (False, incoming_request [] [(''Authentication'', Jwt (HexId (ObjectId 0)) 3600 ''s'')],
                      client)"
    by (rule canActivate_no_credential) (simp add: none)
  have header: "opt_prop (headers (incoming_request []
                    [(''Authentication'', Jwt (HexId (ObjectId 0)) 3600 ''s'')])) ''authentication''
                  = Jwt (HexId (ObjectId 0)) 3600 ''s''"
    by (simp add: r opt_prop_def get_prop_def)
  have cookie: "extract_jwt (incoming_request
                    [(''Authentication'', Jwt (HexId (ObjectId 0)) 3600 ''s'')] [])
                  = Jwt (HexId (ObjectId 0)) 3600 ''s''"
    by (simp add: incoming_request_def extract_jwt_cases opt_prop_def get_prop_def)
  show ?thesis
    using header none rejected cookie by (intro conjI)
qed

text \<open>
  C4. A request with no non-empty credential in the cookie, in the request field or in the
  header is rejected, and the guard's client is left as it was: nothing has been sent.
  The client, and with it whatever the authority would have answered, is arbitrary.
\<close>

theorem no_credential_rejected:
  assumes "\<not> truthy (opt_prop (cookies r) ''Authentication'')"
      and "\<not> truthy (Authentication r)"
      and "\<not> truthy (opt_prop (headers r) ''Authentication'')"
  shows "canActivate r client = (False, r, client)
       \<and> sent (snd (snd (canActivate r client))) = sent client"
  using assms by (simp add: canActivate_no_credential extract_jwt_cases)

theorem no_credential_rejected_witness:
  "canActivate \<lparr>cookies = None, Authentication = Undefined, headers = Some [], user = Undefined\<rparr>
       \<lparr>respond = (\<lambda>p d. Inr (Str ''anyone'')), sent = []\<rparr>
     = (False, \<lparr>cookies = None, Authentication = Undefined, headers = Some [], user = Undefined\<rparr>,
        \<lparr>respond = (\<lambda>p d. Inr (Str ''anyone'')), sent = []\<rparr>)"
  using no_credential_rejected
      [of "\<lparr>cookies = None, Authentication = Undefined, headers = Some [], user = Undefined\<rparr>"
          "\<lparr>respond = (\<lambda>p d. Inr (Str ''anyone'')), sent = []\<rparr>"]
  by (simp add: opt_prop_def get_prop_def)

text \<open>
  C5. For a request that carries a credential: when the authority answers \<open>res\<close>, the
  guard returns \<^verbatim>\<open>true\<close> and the request has \<open>res\<close> as its \<^verbatim>\<open>user\<close>; when the call errors,
  the guard returns \<^verbatim>\<open>false\<close> and the request is as it was, the same for every error.
\<close>

theorem resolve_admits_or_rejects:
  assumes "truthy (extract_jwt r)"
  shows "(\<forall>res. respond client ''authenticate'' (Obj [(''Authentication'', extract_jwt r)]) = Inr res
            \<longrightarrow> fst (canActivate r client) = True
              \<and> fst (snd (canActivate r client)) = r\<lparr>user := res\<rparr>)
       \<and> (\<forall>e. respond client ''authenticate'' (Obj [(''Authentication'', extract_jwt r)]) = Inl e
            \<longrightarrow> fst (canActivate r client) = False
              \<and> fst (snd (canActivate r client)) = r)"
  using assms by (simp add: canActivate_credential)

theorem resolve_admits_or_rejects_witness:
  "fst (canActivate
         \<lparr>cookies = Some [(''Authentication'', Str ''t'')], Authentication = Undefined,
          headers = None, user = Undefined\<rparr>
         \<lparr>respond = (\<lambda>p d. Inr (Obj [(''email'', Str ''a@x.com'')])), sent = []\<rparr>) = True
   \<and> user (fst (snd (canActivate
         \<lparr>cookies = Some [(''Authentication'', Str ''t'')], Authentication = Undefined,
          headers = None, user = Undefined\<rparr>
         \<lparr>respond = (\<lambda>p d. Inr (Obj [(''email'', Str ''a@x.com'')])), sent = []\<rparr>)))
       = Obj [(''email'', Str ''a@x.com'')]
   \<and> fst (canActivate
         \<lparr>cookies = Some [(''Authentication'', Str ''t'')], Authentication = Undefined,
          headers = None, user = Undefined\<rparr>
         \<lparr>respond = (\<lambda>p d. Inl (UnauthorizedException ''Unauthorized'')), sent = []\<rparr>) = False
   \<and> fst (canActivate
         \<lparr>cookies = Some [(''Authentication'', Str ''t'')], Authentication = Undefined,
          headers = None, user = Undefined\<rparr>
         \<lparr>respond = (\<lambda>p d. Inl MongoNetworkError), sent = []\<rparr>) = False"
proof -
  let ?r = "\<lparr>cookies = Some [(''Authentication'', Str ''t'')], Authentication = Undefined,
             headers = None, user = Undefined\<rparr> :: jsval Request"
  have t: "truthy (extract_jwt ?r)"
    by (simp add: extract_jwt_cases opt_prop_def get_prop_def)
  show ?thesis
    using resolve_admits_or_rejects
        [OF t, of "\<lparr>respond = (\<lambda>p d. Inr (Obj [(''email'', Str ''a@x.com'')])), sent = []\<rparr>"]
      resolve_admits_or_rejects
        [OF t, of "\<lparr>respond = (\<lambda>p d. Inl (UnauthorizedException ''Unauthorized'')), sent = []\<rparr>"]
      resolve_admits_or_rejects
        [OF t, of "\<lparr>respond = (\<lambda>p d. Inl MongoNetworkError), sent = []\<rparr>"]
    by simp
qed

text \<open>
  C10. The guard does not look at what the authority answered: for a request that carries
  a credential and any answer \<open>res\<close> that is not an error, the guard returns \<^verbatim>\<open>true\<close> and
  \<^verbatim>\<open>request.user\<close> is \<open>res\<close> itself. In particular this holds when \<open>res\<close> is \<^verbatim>\<open>null\<close>,
  \<^verbatim>\<open>undefined\<close>, the empty string or the empty object.
\<close>

theorem payload_not_inspected:
  assumes "truthy (extract_jwt r)"
      and "respond client ''authenticate'' (Obj [(''Authentication'', extract_jwt r)]) = Inr res"
  shows "fst (canActivate r client) = True
       \<and> user (fst (snd (canActivate r client))) = res
       \<and> (res \<in> {Null, Undefined, Str '''', Obj []} \<longrightarrow> fst (canActivate r client) = True)"
  using assms by (simp add: canActivate_credential)

theorem payload_not_inspected_witness:
  "fst (canActivate
         \<lparr>cookies = None, Authentication = Undefined,
          headers = Some [(''Authentication'', Str ''t'')], user = Str ''nobody yet''\<rparr>
         \<lparr>respond = (\<lambda>p d. Inr Null), sent = []\<rparr>) = True
   \<and> user (fst (snd (canActivate
         \<lparr>cookies = None, Authentication = Undefined,
          headers = Some [(''Authentication'', Str ''t'')], user = Str ''nobody yet''\<rparr>
         \<lparr>respond = (\<lambda>p d. Inr Null), sent = []\<rparr>))) = Null
   \<and> fst (canActivate
         \<lparr>cookies = None, Authentication = Undefined,
          headers = Some [(''Authentication'', Str ''t'')], user = Str ''nobody yet''\<rparr>
         \<lparr>respond = (\<lambda>p d. Inr Undefined), sent = []\<rparr>) = True"
proof -
  let ?r = "\<lparr>cookies = None, Authentication = Undefined,
             headers = Some [(''Authentication'', Str ''t'')], user = Str ''nobody yet''\<rparr>"
  have t: "truthy (extract_jwt ?r)"
    by (simp add: extract_jwt_cases opt_prop_def get_prop_def)
  have a: "respond \<lparr>respond = (\<lambda>p d. Inr Null), sent = []\<rparr> ''authenticate''
             (Obj [(''Authentication'', extract_jwt ?r)]) = Inr Null"
    by simp
  have b: "respond \<lparr>respond = (\<lambda>p d. Inr Undefined), sent = []\<rparr> ''authenticate''
             (Obj [(''Authentication'', extract_jwt ?r)]) = Inr Undefined"
    by simp
  show ?thesis
    using payload_not_inspected [OF t a] payload_not_inspected [OF t b] by simp
qed

end
